theory Spec2Isabelle
  imports Complex_Main "HOL-Library.Multiset" "HOL-Library.Product_Lexorder"
begin

section \<open>Errors\<close>

text \<open>
  The exceptions the two modules raise, as values.  A computation that may raise
  has type \<open>error + 'a\<close>, with \<open>Inl\<close> for the exception.  \<open>UnsupportedError\<close>
  carries the message it is raised with.
\<close>

datatype error =
    TypeError
  | ValueError
  | AssertionError
  | IndexError
  | UnsupportedError string
  | NeverImplementedError

definition err_bind :: "error + 'a \<Rightarrow> ('a \<Rightarrow> error + 'b) \<Rightarrow> error + 'b" where
  "err_bind m f = (case m of Inl e \<Rightarrow> Inl e | Inr x \<Rightarrow> f x)"

section \<open>Shape algebra (koila/shapes.py)\<close>

text \<open>A shape is a Python tuple of ints.\<close>

type_synonym shape_tuple = "int list"

text \<open>\<open>t[i]\<close> on a tuple: a negative index counts from the end, out of range raises.\<close>

definition getitem :: "'a list \<Rightarrow> int \<Rightarrow> error + 'a" where
  "getitem xs i =
     (let n = int (length xs); j = (if i < 0 then i + n else i)
      in if 0 \<le> j \<and> j < n then Inr (xs ! nat j) else Inl IndexError)"

text \<open>\<open>t[:k]\<close> on a tuple: the bound is clamped, nothing raises.\<close>

definition slice_to :: "'a list \<Rightarrow> int \<Rightarrow> 'a list" where
  "slice_to xs k =
     (let n = int (length xs); j = (if k < 0 then max 0 (k + n) else min k n)
      in take (nat j) xs)"

text \<open>\<open>other == 2\<close> where \<open>other\<close> is a tuple: a tuple is never equal to an int.\<close>

definition tuple_eq_int :: "shape_tuple \<Rightarrow> int \<Rightarrow> bool" where
  "tuple_eq_int t n = False"

definition compatible :: "int \<Rightarrow> int \<Rightarrow> bool \<Rightarrow> bool" where
  "compatible input other broadcast =
     (if broadcast then input = 1 \<or> other = 1 \<or> input = other else input = other)"

definition prepends :: "shape_tuple \<Rightarrow> shape_tuple \<Rightarrow> error + (shape_tuple \<times> shape_tuple)" where
  "prepends input other =
     (let li = int (length input);
          lo = int (length other);
          prepended = replicate (nat \<bar>li - lo\<bar>) (1::int);
          (input', other') =
             (if li \<ge> lo then (input, prepended @ other) else (prepended @ input, other))
      in if length input' = length other' then Inr (input', other') else Inl AssertionError)"

subsection \<open>reduce_dims\<close>

text \<open>The \<open>dim\<close> argument: a single int or a tuple of ints.\<close>

datatype dim_arg = DimInt int | DimTuple "int list"

definition dimensions_of :: "dim_arg \<Rightarrow> int set" where
  "dimensions_of dim' = (case dim' of DimInt d \<Rightarrow> {d} | DimTuple ds \<Rightarrow> set ds)"

text \<open>
  The loop \<open>for d in input\<close>: \<open>d\<close> ranges over the entries of the shape, and an
  entry is appended only under \<open>keepdim\<close>, for a \<open>d\<close> that is in \<open>dimensions\<close>.
\<close>

fun reduce_dims_loop :: "shape_tuple \<Rightarrow> int set \<Rightarrow> bool \<Rightarrow> int list \<Rightarrow> int list" where
  "reduce_dims_loop [] dimensions keepdim shapes = shapes"
| "reduce_dims_loop (d # rest) dimensions keepdim shapes =
     (if d \<notin> dimensions then reduce_dims_loop rest dimensions keepdim shapes
      else if keepdim then reduce_dims_loop rest dimensions keepdim (shapes @ [1])
      else reduce_dims_loop rest dimensions keepdim shapes)"

definition reduce_dims :: "shape_tuple \<Rightarrow> dim_arg \<Rightarrow> bool \<Rightarrow> error + shape_tuple" where
  "reduce_dims input dim' keepdim =
     (let dimensions = dimensions_of dim';
          shapes = reduce_dims_loop input dimensions keepdim []
      in if keepdim \<and> \<not> (length shapes = length input) then Inl AssertionError
         else Inr shapes)"

subsection \<open>permute\<close>

text \<open>
  \<open>sorted\<close> is a stable sort: \<open>sort_key\<close> for the call with a key, \<open>sort\<close> in the
  lexicographic order of pairs for the call on the zipped tuples.
\<close>

definition permute :: "shape_tuple \<Rightarrow> int list \<Rightarrow> error + shape_tuple" where
  "permute input dims =
     (if \<not> (length input = length dims) then Inl TypeError
      else if sort dims \<noteq> map int [0..<length dims] then Inl ValueError
      else if \<not> (card (set dims) = length dims) then Inl ValueError
      else
        let dims_order_pair = sort_key snd (enumerate 0 dims);
            scattered_dims = map fst dims_order_pair;
            paired = sort (zip scattered_dims input);
            reordered_dim = map snd paired
        in Inr reordered_dim)"

subsection \<open>matmul\<close>

text \<open>The loop over the aligned leading dimensions.\<close>

fun matmul_loop :: "(int \<times> int) list \<Rightarrow> int list \<Rightarrow> error + int list" where
  "matmul_loop [] shapes = Inr shapes"
| "matmul_loop ((dimi, dimo) # rest) shapes =
     (if \<not> compatible dimi dimo True then Inl ValueError
      else matmul_loop rest (shapes @ [max dimi dimo]))"

definition matmul :: "shape_tuple \<Rightarrow> shape_tuple \<Rightarrow> error + shape_tuple" where
  "matmul input other =
     (let li = length input; lo = length other in
      if li = 0 \<or> lo = 0 then Inl ValueError
      else if li = lo \<and> lo = 1 then
        err_bind (getitem input 0) (\<lambda>a. err_bind (getitem other 0) (\<lambda>b.
          if a \<noteq> b then Inl ValueError else Inr []))
      else if li = lo \<and> lo = 2 then
        err_bind (getitem input 1) (\<lambda>a. err_bind (getitem other 0) (\<lambda>b.
          if a \<noteq> b then Inl ValueError
          else err_bind (getitem input 0) (\<lambda>m. err_bind (getitem other 1) (\<lambda>n.
            Inr [m, n]))))
      else if li = 1 \<and> tuple_eq_int other 2 then
        err_bind (getitem input 0) (\<lambda>a. err_bind (getitem other 0) (\<lambda>b.
          if a \<noteq> b then Inl ValueError
          else err_bind (getitem other 1) (\<lambda>n. Inr [n])))
      else if li = 2 \<and> tuple_eq_int other 1 then
        err_bind (getitem input 1) (\<lambda>a. err_bind (getitem other 0) (\<lambda>b.
          if a \<noteq> b then Inl ValueError
          else err_bind (getitem input 0) (\<lambda>m. Inr [m])))
      else
        err_bind (prepends input other) (\<lambda>(input', other').
        err_bind (matmul_loop (zip (slice_to input' (- 2)) (slice_to other' (- 2))) []) (\<lambda>shapes.
        err_bind (getitem input' (- 1)) (\<lambda>a. err_bind (getitem other' (- 2)) (\<lambda>b.
          if a \<noteq> b then Inl ValueError
          else err_bind (getitem input' (- 2)) (\<lambda>m. err_bind (getitem other' (- 1)) (\<lambda>n.
            Inr (shapes @ [m, n]))))))))"

section \<open>Lazy tensors (koila/tensors.py)\<close>

subsection \<open>Types the module imports\<close>

text \<open>
  Modelled from the spec: \<open>Shape\<close> and \<open>MetaData\<close>, which tensors.py imports from a
  revision of shapes.py that declares them.  A shape is the sequence of dimension
  sizes together with metadata: element type, device tag and the optional
  batch-dimension index.  The fields are the ones tensors.py reads
  (\<open>shape.value\<close>, \<open>shape.metadata.dtype\<close>, \<open>.device\<close>, \<open>.batch\<close>).
\<close>

record MetaData =
  dtype :: string
  device :: string
  batch :: "int option"

record Shape =
  shape_value :: "int list"
  metadata :: MetaData

text \<open>
  Modelled from the spec: the comparison \<open>self.shape == result.shape\<close> of a node's
  predicted \<open>Shape\<close> with the shape of a realized tensor.  Shapes are compared
  structurally, on their dimension sizes.
\<close>

definition shape_eq :: "Shape \<Rightarrow> int list \<Rightarrow> bool" where
  "shape_eq sh realized = (shape_value sh = realized)"

text \<open>
  Modelled from the spec: \<open>PartialInfo\<close> (koila/partials.py), the index or slice
  descriptor of a batched run.  tensors.py reads its field \<open>index\<close> only; the
  type of the index is the host library's.
\<close>

record 'i PartialInfo =
  index :: 'i

subsection \<open>Callables\<close>

text \<open>
  The host functions that tensors.py names, \<open>Tensor.__floordiv__\<close>, and any other
  host function by its name.
  A callable is an opaque object: calling it is the host library's business.
\<close>

datatype torch_fn =
    Tensor_pos | Tensor_neg | Tensor_add | Tensor_sub | Tensor_mul | Tensor_truediv
  | Tensor_floordiv
  | Tensor_pow | Tensor_mod | Tensor_abs | Tensor_matmul
  | Tensor_eq | Tensor_ne | Tensor_gt | Tensor_ge | Tensor_lt | Tensor_le
  | torch_min | torch_minimum | torch_amin | torch_argmin
  | torch_max | torch_maximum | torch_amax | torch_argmax
  | torch_named string

datatype shape_fn =
    shapes_identity | shapes_symmetric | shapes_reduce_dims | shapes_matmul
  | NeverImplementedError_raise_error
  | shapes_named string

subsection \<open>Values, lazy tensors and deferred nodes\<close>

text \<open>
  A Python value that can be an operand: \<open>None\<close>, a scalar, a host tensor or a
  \<open>LazyTensor\<close>.  A \<open>LazyTensor\<close> holds in \<open>_data\<close> either a host tensor or an
  \<open>Evaluation\<close>, and in \<open>_batch\<close> the declared batch dimension.  An \<open>Evaluation\<close>
  holds the function, the predicted shape, the optional callback, the positional
  operands and the keyword operands (a dict, in insertion order).  A float is only
  passed along, never computed with.
\<close>

datatype 't pyval =
    PNone
  | PBool bool
  | PInt int
  | PFloat real
  | PTensor 't
  | PLazy "'t LazyTensor"
and 't LazyTensor =
    LazyTensor (lt_data: "'t TensorLike") (lt_batch: "int option")
and 't TensorLike =
    Materialized 't
  | Deferred "'t Evaluation"
and 't Evaluation =
    Evaluation (func: torch_fn) (shape: Shape) (callback: "('t \<Rightarrow> error + 't) option")
      (args: "'t pyval list") (kwargs: "(string \<times> 't pyval) list")

subsection \<open>The host library\<close>

text \<open>
  What tensors.py asks of torch: whether gradient tracking is on
  (\<open>torch.is_grad_enabled()\<close>), calling a host function on positional and keyword
  arguments (it returns a tensor or raises), the shape of a tensor
  (\<open>result.shape\<close>), and indexing a tensor (\<open>data[index]\<close>).  The shape functions
  that \<open>LazyFunction\<close> calls on the operands themselves belong to the absent revision
  of shapes.py; calling one is a parameter too.
\<close>

record ('t, 'i) torch =
  is_grad_enabled :: bool
  call :: "torch_fn \<Rightarrow> 't pyval list \<Rightarrow> (string \<times> 't pyval) list \<Rightarrow> error + 't"
  shape_call :: "shape_fn \<Rightarrow> 't pyval list \<Rightarrow> (string \<times> 't pyval) list \<Rightarrow> error + Shape"
  tensor_shape :: "'t \<Rightarrow> int list"
  tensor_getitem :: "'t \<Rightarrow> 'i \<Rightarrow> error + 't"

subsection \<open>Constructors\<close>

text \<open>
  \<open>LazyTensor.__init__\<close>: the \<open>data\<close> argument is a host tensor, a node or another
  \<open>LazyTensor\<close>; in the last case the new object takes both fields of the old one.
\<close>

datatype 't init_data =
    OfTensor 't
  | OfEvaluation "'t Evaluation"
  | OfLazyTensor "'t LazyTensor"

definition LazyTensor_init :: "'t init_data \<Rightarrow> int option \<Rightarrow> 't LazyTensor" where
  "LazyTensor_init data' batch' =
     (case data' of
        OfLazyTensor l \<Rightarrow> LazyTensor (lt_data l) (lt_batch l)
      | OfTensor t \<Rightarrow> LazyTensor (Materialized t) batch'
      | OfEvaluation e \<Rightarrow> LazyTensor (Deferred e) batch')"

definition lazy :: "'t pyval \<Rightarrow> int option \<Rightarrow> 't pyval" where
  "lazy val batch' =
     (case val of
        PLazy l \<Rightarrow> val
      | PTensor t \<Rightarrow> PLazy (LazyTensor_init (OfTensor t) batch')
      | _ \<Rightarrow> val)"

subsection \<open>run\<close>

text \<open>
  The module-level \<open>run\<close>, \<open>LazyTensor.run\<close> and \<open>Evaluation.run\<close>, with the two
  comprehensions over the operands as \<open>run_args\<close> and \<open>run_kwargs\<close>.  An exception
  raised while an operand runs, by the host function or by the callback leaves
  \<open>Evaluation.run\<close> at that point.  The final \<open>assert\<close> is \<open>check_shape\<close>.
\<close>

definition check_shape :: "('t, 'i) torch \<Rightarrow> Shape \<Rightarrow> 't \<Rightarrow> error + 't" where
  "check_shape th sh result =
     (if shape_eq sh (tensor_shape th result) then Inr result else Inl AssertionError)"

fun run :: "('t, 'i) torch \<Rightarrow> 't pyval \<Rightarrow> 'i PartialInfo option \<Rightarrow> error + 't pyval"
  and run_args :: "('t, 'i) torch \<Rightarrow> 't pyval list \<Rightarrow> 'i PartialInfo option
                    \<Rightarrow> error + 't pyval list"
  and run_kwargs :: "('t, 'i) torch \<Rightarrow> (string \<times> 't pyval) list \<Rightarrow> 'i PartialInfo option
                    \<Rightarrow> error + (string \<times> 't pyval) list"
  and LazyTensor_run :: "('t, 'i) torch \<Rightarrow> 't LazyTensor \<Rightarrow> 'i PartialInfo option \<Rightarrow> error + 't"
  and Evaluation_run :: "('t, 'i) torch \<Rightarrow> 't Evaluation \<Rightarrow> 'i PartialInfo option \<Rightarrow> error + 't"
where
  "run th (PLazy l) partial =
     (case LazyTensor_run th l partial of Inl e \<Rightarrow> Inl e | Inr t \<Rightarrow> Inr (PTensor t))"
| "run th PNone partial = Inr PNone"
| "run th (PBool b) partial = Inr (PBool b)"
| "run th (PInt n) partial = Inr (PInt n)"
| "run th (PFloat x) partial = Inr (PFloat x)"
| "run th (PTensor t) partial = Inr (PTensor t)"
| "run_args th [] partial = Inr []"
| "run_args th (arg # rest) partial =
     (case run th arg partial of
        Inl e \<Rightarrow> Inl e
      | Inr v \<Rightarrow> (case run_args th rest partial of Inl e \<Rightarrow> Inl e | Inr vs \<Rightarrow> Inr (v # vs)))"
| "run_kwargs th [] partial = Inr []"
| "run_kwargs th ((k, v) # rest) partial =
     (case run th v partial of
        Inl e \<Rightarrow> Inl e
      | Inr v' \<Rightarrow>
          (case run_kwargs th rest partial of Inl e \<Rightarrow> Inl e | Inr kvs \<Rightarrow> Inr ((k, v') # kvs)))"
| "LazyTensor_run th (LazyTensor (Materialized data') b) partial =
     (case partial of
        None \<Rightarrow> Inr data'
      | Some info \<Rightarrow> tensor_getitem th data' (index info))"
| "LazyTensor_run th (LazyTensor (Deferred data') b) partial = Evaluation_run th data' partial"
| "Evaluation_run th (Evaluation f sh cb as kws) partial =
     (case (if partial = None then run_args th as None else run_args th as partial) of
        Inl e \<Rightarrow> Inl e
      | Inr real_args \<Rightarrow>
     (case (if partial = None then run_kwargs th kws None else run_kwargs th kws partial) of
        Inl e \<Rightarrow> Inl e
      | Inr real_kwargs \<Rightarrow>
     (case call th f real_args real_kwargs of
        Inl e \<Rightarrow> Inl e
      | Inr result \<Rightarrow>
          (if partial \<noteq> None then
             (case cb of
                None \<Rightarrow> Inl (UnsupportedError ''Cannot safely parallelize.'')
              | Some c \<Rightarrow>
                  (case c result of Inl e \<Rightarrow> Inl e | Inr result' \<Rightarrow> check_shape th sh result'))
           else check_shape th sh result))))"

subsection \<open>batch\<close>

definition Evaluation_batch :: "'t Evaluation \<Rightarrow> int option" where
  "Evaluation_batch self = batch (metadata (shape self))"

text \<open>
  \<open>LazyTensor.batch\<close> evaluates \<open>self._batch\<close> as an expression statement and falls
  off the end of the function, which returns \<open>None\<close>.
\<close>

definition LazyTensor_batch :: "'t LazyTensor \<Rightarrow> int option" where
  "LazyTensor_batch self = (let _ = lt_batch self in None)"

subsection \<open>LazyFunction and lazy_forward\<close>

definition LazyFunction_call ::
  "('t, 'i) torch \<Rightarrow> torch_fn \<Rightarrow> shape_fn \<Rightarrow> 't pyval list \<Rightarrow> (string \<times> 't pyval) list
     \<Rightarrow> error + 't LazyTensor" where
  "LazyFunction_call th f sf as kws =
     (let lazy_args = map (\<lambda>arg. lazy arg None) as;
          lazy_kwargs = map (\<lambda>(k, v). (k, lazy v None)) kws
      in case shape_call th sf as kws of
           Inl e \<Rightarrow> Inl e
         | Inr sh \<Rightarrow>
             Inr (LazyTensor_init (OfEvaluation (Evaluation f sh None lazy_args lazy_kwargs)) None))"

definition lazy_forward ::
  "('t, 'i) torch \<Rightarrow> torch_fn \<Rightarrow> shape_fn \<Rightarrow> 't pyval list \<Rightarrow> (string \<times> 't pyval) list
     \<Rightarrow> error + 't pyval" where
  "lazy_forward th f sf as kws =
     (if is_grad_enabled th then
        (case LazyFunction_call th f sf as kws of
           Inl e \<Rightarrow> Inl e
         | Inr l \<Rightarrow> Inr (PLazy (LazyTensor_init (OfLazyTensor l) None)))
      else
        (case call th f as kws of Inl e \<Rightarrow> Inl e | Inr t \<Rightarrow> Inr (PTensor t)))"

subsection \<open>Operators of LazyTensor\<close>

text \<open>
  The arithmetic operators go through \<open>lazy_forward\<close>; the reflected ones swap the
  operands.  Floor division and divmod, and their reflected forms, delete their
  argument and raise.
\<close>

definition LazyTensor_add ::
  "('t, 'i) torch \<Rightarrow> 't LazyTensor \<Rightarrow> 't pyval \<Rightarrow> error + 't pyval" where
  "LazyTensor_add th self other =
     lazy_forward th Tensor_add shapes_symmetric [PLazy self, other] []"

definition LazyTensor_radd ::
  "('t, 'i) torch \<Rightarrow> 't LazyTensor \<Rightarrow> 't pyval \<Rightarrow> error + 't pyval" where
  "LazyTensor_radd th self other =
     lazy_forward th Tensor_add shapes_symmetric [other, PLazy self] []"

definition LazyTensor_truediv ::
  "('t, 'i) torch \<Rightarrow> 't LazyTensor \<Rightarrow> 't pyval \<Rightarrow> error + 't pyval" where
  "LazyTensor_truediv th self other =
     lazy_forward th Tensor_truediv shapes_symmetric [PLazy self, other] []"

definition LazyTensor_rtruediv ::
  "('t, 'i) torch \<Rightarrow> 't LazyTensor \<Rightarrow> 't pyval \<Rightarrow> error + 't pyval" where
  "LazyTensor_rtruediv th self other =
     lazy_forward th Tensor_truediv shapes_symmetric [other, PLazy self] []"



definition LazyTensor_divmod ::
  "('t, 'i) torch \<Rightarrow> 't LazyTensor \<Rightarrow> 't pyval \<Rightarrow> error + 't pyval" where
  "LazyTensor_divmod th self other = Inl NeverImplementedError"

definition LazyTensor_rdivmod ::
  "('t, 'i) torch \<Rightarrow> 't LazyTensor \<Rightarrow> 't pyval \<Rightarrow> error + 't pyval" where
  "LazyTensor_rdivmod th self other = Inl NeverImplementedError"

subsection \<open>The custom min and max\<close>

text \<open>
  The functions \<open>_min\<close> and \<open>_max\<close> of tensors.py, here \<open>custom_min\<close> and
  \<open>custom_max\<close>; they return a single value or a \<open>_ValIdx\<close> pair.
\<close>

datatype 't ValIdx = ValIdx (vi_values: "'t pyval") (vi_indices: "'t pyval")

definition isinstance_tensor :: "'t pyval \<Rightarrow> bool" where
  "isinstance_tensor v = (case v of PTensor t \<Rightarrow> True | PLazy l \<Rightarrow> True | _ \<Rightarrow> False)"

definition kwargs_get :: "(string \<times> 'v) list \<Rightarrow> string \<Rightarrow> 'v \<Rightarrow> 'v" where
  "kwargs_get kws k default' = (case map_of kws k of None \<Rightarrow> default' | Some v \<Rightarrow> v)"

text \<open>
  The condition of the second \<open>if\<close>, the same in both functions:
  \<open>len(args) == 1 and isinstance((other := args[0]), (Tensor, LazyTensor))
   or len(kwargs) == 1 and (other := kwargs.get("other", None) is not None)\<close>.
  The result is \<open>Some other\<close> when the condition holds, with the value that the
  walrus bound last.  In the second disjunct \<open>:=\<close> binds weaker than \<open>is not\<close>,
  so \<open>other\<close> is the outcome of the test.
\<close>

definition binary_operand :: "'t pyval list \<Rightarrow> (string \<times> 't pyval) list \<Rightarrow> 't pyval option" where
  "binary_operand as kws =
     (if length as = 1 \<and> isinstance_tensor (as ! 0) then Some (as ! 0)
      else if length kws = 1 then
        (let other = (kwargs_get kws ''other'' PNone \<noteq> PNone)
         in if other then Some (PBool other) else None)
      else None)"

definition custom_min ::
  "('t, 'i) torch \<Rightarrow> 't pyval \<Rightarrow> 't pyval list \<Rightarrow> (string \<times> 't pyval) list
     \<Rightarrow> error + ('t pyval + 't ValIdx)" where
  "custom_min th input as kws =
     (if length as = length kws \<and> length kws = 0 then
        (case lazy_forward th torch_min shapes_reduce_dims [input] [] of
           Inl e \<Rightarrow> Inl e | Inr v \<Rightarrow> Inr (Inl v))
      else
        (case binary_operand as kws of
           Some other \<Rightarrow>
             (case lazy_forward th torch_minimum shapes_symmetric [input, other] [] of
                Inl e \<Rightarrow> Inl e | Inr v \<Rightarrow> Inr (Inl v))
         | None \<Rightarrow>
             (case lazy_forward th torch_amin shapes_reduce_dims (input # as) kws of
                Inl e \<Rightarrow> Inl e
              | Inr vals \<Rightarrow>
                  (case lazy_forward th torch_argmin shapes_reduce_dims (input # as) kws of
                     Inl e \<Rightarrow> Inl e
                   | Inr idxs \<Rightarrow> Inr (Inr (ValIdx vals idxs))))))"

definition custom_max ::
  "('t, 'i) torch \<Rightarrow> 't pyval \<Rightarrow> 't pyval list \<Rightarrow> (string \<times> 't pyval) list
     \<Rightarrow> error + ('t pyval + 't ValIdx)" where
  "custom_max th input as kws =
     (if length as = length kws \<and> length kws = 0 then
        (case lazy_forward th torch_max shapes_reduce_dims [input] [] of
           Inl e \<Rightarrow> Inl e | Inr v \<Rightarrow> Inr (Inl v))
      else
        (case binary_operand as kws of
           Some other \<Rightarrow>
             (case lazy_forward th torch_maximum shapes_symmetric [input, other] [] of
                Inl e \<Rightarrow> Inl e | Inr v \<Rightarrow> Inr (Inl v))
         | None \<Rightarrow>
             (case lazy_forward th torch_amax shapes_reduce_dims (input # as) kws of
                Inl e \<Rightarrow> Inl e
              | Inr vals \<Rightarrow>
                  (case lazy_forward th torch_argmax shapes_reduce_dims (input # as) kws of
                     Inl e \<Rightarrow> Inl e
                   | Inr idxs \<Rightarrow> Inr (Inr (ValIdx vals idxs))))))"

subsection \<open>Dispatch tables and the dispatch hook\<close>

text \<open>
  \<open>MethodFunction\<close>: two dicts from names to handlers, with \<open>_search\<close> over a list
  of dicts and \<open>lookup\<close>, which tries the key and then the key without its leading
  underscores.
\<close>

datatype 'a MethodFunction =
  MethodFunction (mf_method: "(string \<times> 'a) list") (mf_function: "(string \<times> 'a) list")

fun MethodFunction_search :: "string \<Rightarrow> (string \<times> 'a) list list \<Rightarrow> 'a option" where
  "MethodFunction_search key [] = None"
| "MethodFunction_search key (db # dbs) =
     (case map_of db key of Some v \<Rightarrow> Some v | None \<Rightarrow> MethodFunction_search key dbs)"

definition lstrip_underscores :: "string \<Rightarrow> string" where
  "lstrip_underscores key = dropWhile (\<lambda>c. c = CHR ''_'') key"

definition MethodFunction_lookup :: "string \<Rightarrow> (string \<times> 'a) list list \<Rightarrow> 'a option" where
  "MethodFunction_lookup key dbs =
     (case MethodFunction_search key dbs of
        Some r \<Rightarrow> Some r
      | None \<Rightarrow> MethodFunction_search (lstrip_underscores key) dbs)"

definition lookup_method :: "'a MethodFunction \<Rightarrow> string \<Rightarrow> 'a option" where
  "lookup_method self key = MethodFunction_lookup key [mf_method self, mf_function self]"






text \<open>
  The types that \<open>__torch_function__\<close> receives, and its test
  \<open>issubclass(typ, (LazyTensor, Tensor, int, float, bool))\<close>.
\<close>

datatype pytype =
    type_LazyTensor | type_Tensor | type_int | type_float | type_bool | type_other string





section \<open>A one-dimensional host\<close>

text \<open>
  A small instance of the host library, to run the model on concrete inputs: a
  tensor is a list of ints, its shape is its length, an index is a slice
  \<open>(start, stop)\<close>.  Negation and addition are elementwise; a function called with
  operands it does not accept raises \<open>TypeError\<close>.  The shape functions predict the
  shape of the first operand.
\<close>

definition vec_call ::
  "torch_fn \<Rightarrow> int list pyval list \<Rightarrow> (string \<times> int list pyval) list \<Rightarrow> error + int list" where
  "vec_call f as kws =
     (if f = Tensor_neg then
        (case as of [PTensor a] \<Rightarrow> Inr (map uminus a) | _ \<Rightarrow> Inl TypeError)
      else if f = Tensor_add then
        (case as of
           [PTensor a, PTensor b] \<Rightarrow>
             (if length a = length b then Inr (map2 (+) a b) else Inl ValueError)
         | _ \<Rightarrow> Inl TypeError)
      else Inl TypeError)"

definition vec_shape :: "int list \<Rightarrow> Shape" where
  "vec_shape t =
     \<lparr>shape_value = [int (length t)],
      metadata = \<lparr>dtype = ''int64'', device = ''cpu'', batch = None\<rparr>\<rparr>"

definition vec_shape_call ::
  "shape_fn \<Rightarrow> int list pyval list \<Rightarrow> (string \<times> int list pyval) list \<Rightarrow> error + Shape" where
  "vec_shape_call sf as kws =
     (case as of
        PTensor t # rest \<Rightarrow> Inr (vec_shape t)
      | PLazy (LazyTensor (Materialized t) b) # rest \<Rightarrow> Inr (vec_shape t)
      | PLazy (LazyTensor (Deferred ev) b) # rest \<Rightarrow> Inr (shape ev)
      | _ \<Rightarrow> Inl ValueError)"

definition vec_torch :: "bool \<Rightarrow> (int list, nat \<times> nat) torch" where
  "vec_torch grad =
     \<lparr>is_grad_enabled = grad,
      call = vec_call,
      shape_call = vec_shape_call,
      tensor_shape = (\<lambda>t. [int (length t)]),
      tensor_getitem = (\<lambda>t (start, stop). Inr (take (stop - start) (drop start t)))\<rparr>"

section \<open>Shape algebra: theorems\<close>

text \<open>
  Claim C1.  The claim says that \<open>reduce_dims(s, dim, keepdim=False)\<close> removes exactly the named axes, so that \<open>reduce_dims((2, 3, 5), 0) == (3, 5)\<close>, and that with \<open>keepdim=True\<close> the result has the length of \<open>s\<close>.  The loop ranges over the sizes in the shape, not over the axes, and appends nothing unless \<open>keepdim\<close> holds: on \<open>(2, 3, 5)\<close> with \<open>dim = 0\<close> the code returns \<open>()\<close> without \<open>keepdim\<close>, and with \<open>keepdim\<close> its own assertion \<open>len(shapes) == len(input)\<close> fails.
\<close>

theorem reduce_dims_drops_everything:
  "reduce_dims [2, 3, 5] (DimInt 0) False = Inr []
   \<and> reduce_dims [2, 3, 5] (DimInt 0) True = Inl AssertionError"
  by (simp add: reduce_dims_def dimensions_of_def)

text \<open>
  Claim C2.  The claim says that \<open>matmul((m, k), (k,))\<close> is \<open>(m,)\<close>, that \<open>matmul((k,), (k, n))\<close> is \<open>(n,)\<close> and that a mismatch of the inner dimension raises.  The two special cases test \<open>other == 2\<close> and \<open>other == 1\<close>, a tuple against an int, so they are never taken and the general case runs on the shapes padded with 1: \<open>matmul((2, 3), (3,))\<close> raises, \<open>matmul((3,), (3, 4))\<close> is \<open>(1, 4)\<close>, and the mismatched \<open>matmul((2, 1), (3,))\<close> returns \<open>(2, 3)\<close>.
\<close>

theorem matmul_vector_cases:
  "matmul [2, 3] [3] = Inl ValueError
   \<and> matmul [3] [3, 4] = Inr [1, 4]
   \<and> matmul [2, 1] [3] = Inr [2, 3]"
  by (simp add: matmul_def tuple_eq_int_def prepends_def err_bind_def getitem_def
      slice_to_def)

lemma sort_eq_upt_iff:
  "(sort dims = map int [0..<n]) = (mset dims = mset (map int [0..<n]))"
proof
  assume "sort dims = map int [0..<n]"
  then have "mset (sort dims) = mset (map int [0..<n])" by simp
  then show "mset dims = mset (map int [0..<n])" by simp
next
  assume m: "mset dims = mset (map int [0..<n])"
  have "sorted (map int [0..<n])"
    by (simp add: sorted_map sorted_wrt_mono_rel[OF _ sorted_wrt_upt])
  with m show "sort dims = map int [0..<n]"
    by (simp add: properties_for_sort)
qed

lemma permute_reorder:
  assumes len: "length dims = length s"
    and srt: "sort dims = map int [0..<length dims]"
  shows "map snd (sort (zip (map fst (sort_key snd (enumerate 0 dims))) s))
         = map (\<lambda>i. s ! nat (dims ! i)) [0..<length s]"
proof -
  let ?r = "length s"
  let ?P = "sort_key snd (enumerate 0 dims)"
  let ?sc = "map fst ?P"
  let ?g = "\<lambda>i. (i, s ! nat (dims ! i))"
  have lenP: "length ?P = ?r" by (simp add: len)
  have "mset (map snd ?P) = image_mset snd (mset (enumerate 0 dims))"
    by simp
  also have "\<dots> = mset (map snd (enumerate 0 dims))"
    by (simp only: mset_map)
  finally have "mset (map snd ?P) = mset dims"
    by simp
  then have "sort dims = map snd ?P"
    by (rule properties_for_sort) simp
  then have sndP: "map snd ?P = map int [0..<?r]"
    using srt len by simp
  have key: "dims ! (?sc ! j) = int j" if j: "j < ?r" for j
  proof -
    have "?P ! j \<in> set ?P" using j lenP by (intro nth_mem) simp
    then have "?P ! j \<in> set (enumerate 0 dims)" by (simp only: set_sort)
    then have "dims ! fst (?P ! j) = snd (?P ! j)"
      by (simp add: in_set_enumerate_eq)
    moreover have "snd (?P ! j) = map snd ?P ! j" using j lenP by simp
    moreover have "fst (?P ! j) = ?sc ! j" using j lenP by simp
    ultimately show ?thesis using sndP j by simp
  qed
  have zip_eq: "zip ?sc s = map ?g ?sc"
    by (rule nth_equalityI) (use lenP key in simp_all)
  have "mset ?sc = image_mset fst (mset (enumerate 0 dims))"
    by simp
  also have "\<dots> = mset (map fst (enumerate 0 dims))"
    by (simp only: mset_map)
  finally have msc: "mset ?sc = mset [0..<?r]"
    by (simp only: map_fst_enumerate len add_0)
  have "mset (map ?g ?sc) = mset (map ?g [0..<?r])"
    using msc by (simp only: mset_map)
  moreover have "sorted (map ?g [0..<?r])"
    by (simp add: sorted_map sorted_wrt_mono_rel[OF _ sorted_wrt_upt])
  ultimately have "sort (zip ?sc s) = map ?g [0..<?r]"
    unfolding zip_eq by (simp add: properties_for_sort)
  then show ?thesis by (simp add: comp_def)
qed

text \<open>
  Claim C7.  For a shape \<open>s\<close> and \<open>dims\<close> a permutation of \<open>0..r-1\<close>, where \<open>r\<close> is the rank of \<open>s\<close>, \<open>permute\<close> returns the shape \<open>t\<close> with \<open>t[i] = s[dims[i]]\<close>; if \<open>dims\<close> has another length than \<open>s\<close> it raises \<open>TypeError\<close>; if \<open>dims\<close> has the length of \<open>s\<close> and is not a permutation of \<open>0..r-1\<close> it raises \<open>ValueError\<close>.
\<close>

theorem permute_spec:
  "(length dims = length s \<and> mset dims = mset (map int [0..<length s])
      \<longrightarrow> permute s dims = Inr (map (\<lambda>i. s ! nat (dims ! i)) [0..<length s]))
   \<and> (length dims \<noteq> length s \<longrightarrow> permute s dims = Inl TypeError)
   \<and> (length dims = length s \<and> mset dims \<noteq> mset (map int [0..<length s])
      \<longrightarrow> permute s dims = Inl ValueError)"
proof (intro conjI impI)
  assume a: "length dims = length s \<and> mset dims = mset (map int [0..<length s])"
  then have srt: "sort dims = map int [0..<length dims]"
    by (simp add: sort_eq_upt_iff)
  have "distinct (sort dims)" unfolding srt by (simp add: distinct_map)
  then have "card (set dims) = length dims" by (simp add: distinct_card)
  with a srt permute_reorder[of dims s]
  show "permute s dims = Inr (map (\<lambda>i. s ! nat (dims ! i)) [0..<length s])"
    by (simp add: permute_def)
next
  assume "length dims \<noteq> length s"
  then show "permute s dims = Inl TypeError" by (auto simp: permute_def)
next
  assume a: "length dims = length s \<and> mset dims \<noteq> mset (map int [0..<length s])"
  then have "sort dims \<noteq> map int [0..<length dims]"
    by (simp add: sort_eq_upt_iff)
  with a show "permute s dims = Inl ValueError" by (simp add: permute_def)
qed

text \<open>
  The three cases of claim C7 on the shape \<open>(2, 3, 5)\<close>: the order \<open>(2, 0, 1)\<close> gives \<open>(5, 2, 3)\<close>.
\<close>

theorem permute_spec_witness:
  "permute [2, 3, 5] [2, 0, 1] = Inr [5, 2, 3]
   \<and> permute [2, 3, 5] [2, 0] = Inl TypeError
   \<and> permute [2, 3, 5] [2, 0, 0] = Inl ValueError"
proof -
  have u: "[0..<3] = [0, 1, 2]" by (simp add: upt_rec)
  have 1: "permute [2, 3, 5] [2, 0, 1] = Inr [5, 2, 3]"
    using permute_spec[of "[2, 0, 1]" "[2, 3, 5]"] by (simp add: u)
  have 2: "permute [2, 3, 5] [2, 0] = Inl TypeError"
    using permute_spec[of "[2, 0]" "[2, 3, 5]"] by simp
  have 3: "permute [2, 3, 5] [2, 0, 0] = Inl ValueError"
    using permute_spec[of "[2, 0, 0]" "[2, 3, 5]"] by (simp add: u)
  from 1 2 3 show ?thesis by simp
qed

section \<open>Lazy tensors: theorems\<close>

text \<open>
  Claim C3, amended.  On a lazy value whose storage is a materialized tensor, \<open>run\<close> with no partial returns the stored tensor unchanged; with a partial it returns the stored tensor indexed at \<open>partial.index\<close>.  A bare host tensor is returned unchanged, whatever the partial.
\<close>

theorem run_materialized:
  "run th (PLazy (LazyTensor (Materialized t) b)) partial =
     (case partial of
        None \<Rightarrow> Inr (PTensor t)
      | Some info \<Rightarrow>
          (case tensor_getitem th t (index info) of
             Inl e \<Rightarrow> Inl e | Inr t' \<Rightarrow> Inr (PTensor t')))
   \<and> run th (PTensor t) partial = Inr (PTensor t)"
  by (simp split: option.splits)

text \<open>
  Claim C3, amended, on the tensor \<open>[1, 2, 3]\<close> and the slice \<open>(0, 1)\<close>.
\<close>

theorem run_materialized_witness:
  "run (vec_torch True) (PLazy (LazyTensor (Materialized [1, 2, 3]) None))
     (Some \<lparr>index = (0, 1)\<rparr>) = Inr (PTensor [1])
   \<and> run (vec_torch True) (PLazy (LazyTensor (Materialized [1, 2, 3]) None)) None
       = Inr (PTensor [1, 2, 3])"
  using run_materialized[of "vec_torch True" "[1, 2, 3]" None "Some \<lparr>index = (0, 1)\<rparr>"]
        run_materialized[of "vec_torch True" "[1, 2, 3]" None None]
  by (simp add: vec_torch_def)

text \<open>
  Claim C3 as stated says that \<open>run\<close> ignores the partial on a materialized lazy value.  With the slice \<open>(0, 1)\<close> the run of \<open>[1, 2, 3]\<close> is not \<open>[1, 2, 3]\<close>.
\<close>

theorem run_materialized_counterexample:
  "run (vec_torch True) (PLazy (LazyTensor (Materialized [1, 2, 3]) None))
     (Some \<lparr>index = (0, 1)\<rparr>) \<noteq> Inr (PTensor [1, 2, 3])"
  by (simp add: vec_torch_def)

text \<open>
  Claim C4.  The claim says that \<open>batch()\<close> on a \<open>LazyTensor\<close> built with batch dimension \<open>b\<close> returns \<open>b\<close>.  The method has no \<open>return\<close>: built with \<open>batch = 0\<close>, it answers \<open>None\<close>, while \<open>Evaluation.batch\<close> does return the recorded index.
\<close>

theorem LazyTensor_batch_None:
  "LazyTensor_batch (LazyTensor_init (OfTensor [1::int]) (Some 0)) = None"
  by (simp add: LazyTensor_batch_def)

lemma check_shape_Inr: "check_shape th sh r = Inr r' \<Longrightarrow> shape_eq sh (tensor_shape th r')"
  by (auto simp: check_shape_def split: if_splits)

text \<open>
  Claim C9.  Whenever \<open>Evaluation.run\<close> returns a tensor, with or without a partial, the shape of that tensor is the predicted shape of the node; and in a partial run in which the operands, the function and the callback succeed, an adapted result of another shape makes the assertion fail.
\<close>

theorem Evaluation_run_shape_checked:
  "(Evaluation_run th ev partial = Inr r \<longrightarrow> shape_eq (shape ev) (tensor_shape th r))
   \<and> (partial \<noteq> None \<and> callback ev = Some c
        \<and> run_args th (args ev) partial = Inr real_args
        \<and> run_kwargs th (kwargs ev) partial = Inr real_kwargs
        \<and> call th (func ev) real_args real_kwargs = Inr raw
        \<and> c raw = Inr adapted
        \<and> \<not> shape_eq (shape ev) (tensor_shape th adapted)
      \<longrightarrow> Evaluation_run th ev partial = Inl AssertionError)"
proof (cases ev)
  case (Evaluation f sh cb as kws)
  show ?thesis
  proof (intro conjI impI)
    assume "Evaluation_run th ev partial = Inr r"
    then show "shape_eq (shape ev) (tensor_shape th r)"
      unfolding Evaluation
      by (auto split: sum.splits if_splits option.splits dest: check_shape_Inr)
  next
    assume "partial \<noteq> None \<and> callback ev = Some c
        \<and> run_args th (args ev) partial = Inr real_args
        \<and> run_kwargs th (kwargs ev) partial = Inr real_kwargs
        \<and> call th (func ev) real_args real_kwargs = Inr raw
        \<and> c raw = Inr adapted
        \<and> \<not> shape_eq (shape ev) (tensor_shape th adapted)"
    then show "Evaluation_run th ev partial = Inl AssertionError"
      unfolding Evaluation by (auto simp: check_shape_def)
  qed
qed

text \<open>
  Claim C9 on a negation node over \<open>[1, 2, 3]\<close>, run on the slice \<open>(0, 2)\<close> with the identity callback: predicted with shape \<open>(2)\<close> it returns \<open>[-1, -2]\<close>, predicted with the full shape \<open>(3)\<close> the assertion fails.
\<close>

theorem Evaluation_run_shape_checked_witness:
  "Evaluation_run (vec_torch True)
     (Evaluation Tensor_neg (vec_shape [1, 2]) (Some Inr)
        [PLazy (LazyTensor (Materialized [1, 2, 3]) None)] [])
     (Some \<lparr>index = (0, 2)\<rparr>) = Inr [- 1, - 2]
   \<and> shape_eq (vec_shape [1, 2]) (tensor_shape (vec_torch True) [- 1, - 2])
   \<and> Evaluation_run (vec_torch True)
     (Evaluation Tensor_neg (vec_shape [1, 2, 3]) (Some Inr)
        [PLazy (LazyTensor (Materialized [1, 2, 3]) None)] [])
     (Some \<lparr>index = (0, 2)\<rparr>) = Inl AssertionError"
proof -
  let ?th = "vec_torch True"
  let ?p = "Some \<lparr>index = (0::nat, 2::nat)\<rparr>"
  let ?ok = "Evaluation Tensor_neg (vec_shape [1, 2]) (Some Inr)
               [PLazy (LazyTensor (Materialized [1, 2, 3]) None)] []"
  let ?bad = "Evaluation Tensor_neg (vec_shape [1, 2, 3]) (Some Inr)
               [PLazy (LazyTensor (Materialized [1, 2, 3]) None)] []"
  have run_ok: "Evaluation_run ?th ?ok ?p = Inr [- 1, - 2]"
    by (simp add: vec_torch_def vec_call_def vec_shape_def check_shape_def shape_eq_def)
  have 1: "shape_eq (vec_shape [1, 2]) (tensor_shape ?th [- 1, - 2])"
    using Evaluation_run_shape_checked[where th = ?th and ev = ?ok and partial = ?p
        and r = "[- 1, - 2]", THEN conjunct1, THEN mp, OF run_ok]
    by simp
  have h: "?p \<noteq> None \<and> callback ?bad = Some Inr
        \<and> run_args ?th (args ?bad) ?p = Inr [PTensor [1, 2]]
        \<and> run_kwargs ?th (kwargs ?bad) ?p = Inr []
        \<and> call ?th (func ?bad) [PTensor [1, 2]] [] = Inr [- 1, - 2]
        \<and> (Inr [- 1, - 2] :: error + int list) = Inr [- 1, - 2]
        \<and> \<not> shape_eq (shape ?bad) (tensor_shape ?th [- 1, - 2])"
    by (simp add: vec_torch_def vec_call_def vec_shape_def shape_eq_def)
  have 2: "Evaluation_run ?th ?bad ?p = Inl AssertionError"
    by (rule Evaluation_run_shape_checked[where th = ?th and ev = ?bad and partial = ?p
        and c = Inr and real_args = "[PTensor [1, 2]]" and real_kwargs = "[]"
        and raw = "[- 1, - 2]" and adapted = "[- 1, - 2]", THEN conjunct2, THEN mp, OF h])
  from run_ok 1 2 show ?thesis by (intro conjI)
qed




text \<open>
  Claim C6.  With gradient tracking disabled, \<open>lazy_forward\<close> is the host function applied to the arguments as they are, a materialized tensor; a result that wraps a deferred node occurs only with gradient tracking enabled, and then the node records the function, the predicted shape, no callback and the operands made lazy.
\<close>

theorem lazy_forward_grad:
  "(\<not> is_grad_enabled th \<longrightarrow>
      lazy_forward th f sf as kws
        = (case call th f as kws of Inl e \<Rightarrow> Inl e | Inr t \<Rightarrow> Inr (PTensor t)))
   \<and> (lazy_forward th f sf as kws = Inr (PLazy (LazyTensor (Deferred ev) b))
        \<longrightarrow> is_grad_enabled th)
   \<and> (is_grad_enabled th \<and> shape_call th sf as kws = Inr sh \<longrightarrow>
        lazy_forward th f sf as kws
          = Inr (PLazy (LazyTensor
              (Deferred (Evaluation f sh None (map (\<lambda>arg. lazy arg None) as)
                 (map (\<lambda>(k, v). (k, lazy v None)) kws))) None)))"
  by (auto simp: lazy_forward_def LazyFunction_call_def LazyTensor_init_def
      split: sum.splits)

text \<open>
  Claim C6 on the addition of \<open>[1]\<close> and \<open>[2]\<close>: \<open>[3]\<close> with gradient tracking disabled, a deferred addition node with it enabled.
\<close>

theorem lazy_forward_grad_witness:
  "lazy_forward (vec_torch False) Tensor_add shapes_symmetric [PTensor [1], PTensor [2]] []
     = Inr (PTensor [3])
   \<and> lazy_forward (vec_torch True) Tensor_add shapes_symmetric [PTensor [1], PTensor [2]] []
     = Inr (PLazy (LazyTensor
         (Deferred (Evaluation Tensor_add (vec_shape [1]) None
            [PLazy (LazyTensor (Materialized [1]) None),
             PLazy (LazyTensor (Materialized [2]) None)] [])) None))
   \<and> is_grad_enabled (vec_torch True)"
proof -
  let ?as = "[PTensor [1], PTensor [2::int]]"
  let ?node = "Evaluation Tensor_add (vec_shape [1]) None
            [PLazy (LazyTensor (Materialized [1]) None),
             PLazy (LazyTensor (Materialized [2]) None)] []"
  have 1: "lazy_forward (vec_torch False) Tensor_add shapes_symmetric ?as [] = Inr (PTensor [3])"
    using lazy_forward_grad[where th = "vec_torch False" and f = Tensor_add
        and sf = shapes_symmetric and as = ?as and kws = "[]"]
    by (simp add: vec_torch_def vec_call_def)
  have 2: "lazy_forward (vec_torch True) Tensor_add shapes_symmetric ?as []
             = Inr (PLazy (LazyTensor (Deferred ?node) None))"
    using lazy_forward_grad[where th = "vec_torch True" and f = Tensor_add
        and sf = shapes_symmetric and as = ?as and kws = "[]" and sh = "vec_shape [1]"]
    by (simp add: vec_torch_def vec_shape_call_def lazy_def LazyTensor_init_def)
  have 3: "is_grad_enabled (vec_torch True)"
    using lazy_forward_grad[where th = "vec_torch True" and f = Tensor_add
        and sf = shapes_symmetric and as = ?as and kws = "[]" and ev = ?node and b = None]
      2 by simp
  from 1 2 3 show ?thesis by simp
qed





text \<open>
  Claim C10.  When the second operand of the custom min or max is passed by keyword, \<open>other=t\<close> with \<open>t\<close> not \<open>None\<close>, the operands forwarded to the elementwise minimum or maximum are the input and the boolean \<open>True\<close>; passed by position, a tensor \<open>t\<close> is forwarded itself.
\<close>

theorem custom_min_max_keyword_other:
  "(t \<noteq> PNone \<longrightarrow>
      custom_min th input [] [(''other'', t)]
        = (case lazy_forward th torch_minimum shapes_symmetric [input, PBool True] [] of
             Inl e \<Rightarrow> Inl e | Inr v \<Rightarrow> Inr (Inl v))
      \<and> custom_max th input [] [(''other'', t)]
        = (case lazy_forward th torch_maximum shapes_symmetric [input, PBool True] [] of
             Inl e \<Rightarrow> Inl e | Inr v \<Rightarrow> Inr (Inl v)))
   \<and> (isinstance_tensor t \<longrightarrow>
      custom_min th input [t] []
        = (case lazy_forward th torch_minimum shapes_symmetric [input, t] [] of
             Inl e \<Rightarrow> Inl e | Inr v \<Rightarrow> Inr (Inl v))
      \<and> custom_max th input [t] []
        = (case lazy_forward th torch_maximum shapes_symmetric [input, t] [] of
             Inl e \<Rightarrow> Inl e | Inr v \<Rightarrow> Inr (Inl v)))"
  by (simp add: custom_min_def custom_max_def binary_operand_def kwargs_get_def)

text \<open>
  Claim C10 with gradient tracking enabled, where the deferred node shows its operands: \<open>True\<close> for \<open>other=[2]\<close>, the tensor \<open>[2]\<close> for the positional call.
\<close>

theorem custom_min_max_keyword_other_witness:
  "custom_min (vec_torch True) (PTensor [1]) [] [(''other'', PTensor [2])]
     = Inr (Inl (PLazy (LazyTensor
         (Deferred (Evaluation torch_minimum (vec_shape [1]) None
            [PLazy (LazyTensor (Materialized [1]) None), PBool True] [])) None)))
   \<and> custom_min (vec_torch True) (PTensor [1]) [PTensor [2]] []
     = Inr (Inl (PLazy (LazyTensor
         (Deferred (Evaluation torch_minimum (vec_shape [1]) None
            [PLazy (LazyTensor (Materialized [1]) None),
             PLazy (LazyTensor (Materialized [2]) None)] [])) None)))"
proof -
  have 1: "custom_min (vec_torch True) (PTensor [1]) [] [(''other'', PTensor [2])]
     = Inr (Inl (PLazy (LazyTensor
         (Deferred (Evaluation torch_minimum (vec_shape [1]) None
            [PLazy (LazyTensor (Materialized [1]) None), PBool True] [])) None)))"
    using custom_min_max_keyword_other[where t = "PTensor [2]" and th = "vec_torch True"
        and input = "PTensor [1]"]
    by (simp add: lazy_forward_def LazyFunction_call_def vec_torch_def vec_shape_call_def
        lazy_def LazyTensor_init_def)
  have 2: "custom_min (vec_torch True) (PTensor [1]) [PTensor [2]] []
     = Inr (Inl (PLazy (LazyTensor
         (Deferred (Evaluation torch_minimum (vec_shape [1]) None
            [PLazy (LazyTensor (Materialized [1]) None),
             PLazy (LazyTensor (Materialized [2]) None)] [])) None)))"
    using custom_min_max_keyword_other[where t = "PTensor [2]" and th = "vec_torch True"
        and input = "PTensor [1]"]
    by (simp add: lazy_forward_def LazyFunction_call_def vec_torch_def vec_shape_call_def
        lazy_def LazyTensor_init_def isinstance_tensor_def)
  from 1 2 show ?thesis by simp
qed

end
